theory Spec2Isabelle
  imports Main
begin

section \<open>JavaScript values seen by the binder\<close>

text \<open>
  The package \<^verbatim>\<open>express-decorator\<close> reads metadata that decorators attached to
  classes and methods and turns it into Express route registrations
  (\<^verbatim>\<open>src/packages/express-decorator/src/index.ts\<close>, the version with a container).
  The values the binder inspects are JavaScript values. The model keeps what the
  source looks at:
  \<^item> the answer of \<^verbatim>\<open>typeof\<close>;
  \<^item> for an object: its identity, whether \<^verbatim>\<open>instanceof Middleware\<close> holds, and
    the properties a read \<^verbatim>\<open>o.p\<close> finds (own or inherited);
  \<^item> for a function object \<open>f\<close>: its identity and, when \<^verbatim>\<open>f.prototype\<close> is an
    object, the identity of the function stored in \<^verbatim>\<open>f.prototype.constructor\<close>.
    A class and a function written with the keyword \<^verbatim>\<open>function\<close> both have a
    prototype object whose constructor is the function itself; an arrow function, a
    method and a bound function have no \<^verbatim>\<open>prototype\<close> property;
  \<^item> the result of \<^verbatim>\<open>f.bind(thisArg)\<close>: a new function that remembers \<open>f\<close> and
    \<open>thisArg\<close>.
\<close>

datatype jsval =
    JUndefined
  | JNull
  | JBool bool
  | JNumber int
  | JString string
  | JArray "jsval list"
  | JObject nat bool "(string \<times> jsval) list"
  | JFunction nat "nat option"
  | JBound jsval jsval

fun typeof :: "jsval \<Rightarrow> string" where
  "typeof JUndefined = ''undefined''"
| "typeof JNull = ''object''"
| "typeof (JBool b) = ''boolean''"
| "typeof (JNumber n) = ''number''"
| "typeof (JString s) = ''string''"
| "typeof (JArray xs) = ''object''"
| "typeof (JObject i m ps) = ''object''"
| "typeof (JFunction i c) = ''function''"
| "typeof (JBound f t) = ''function''"

text \<open>A property read \<^verbatim>\<open>o.name\<close>; a missing property reads as \<^verbatim>\<open>undefined\<close>.\<close>

fun get_property :: "jsval \<Rightarrow> string \<Rightarrow> jsval" where
  "get_property (JObject i m ps) name =
     (case map_of ps name of None \<Rightarrow> JUndefined | Some v \<Rightarrow> v)"
| "get_property v name = JUndefined"

fun isArray :: "jsval \<Rightarrow> bool" where
  "isArray (JArray xs) = True"
| "isArray v = False"

fun elements :: "jsval \<Rightarrow> jsval list" where
  "elements (JArray xs) = xs"
| "elements v = []"

fun string_of :: "jsval \<Rightarrow> string" where
  "string_of (JString s) = s"
| "string_of v = []"

fun instanceof_Middleware :: "jsval \<Rightarrow> bool" where
  "instanceof_Middleware (JObject i m ps) = m"
| "instanceof_Middleware v = False"

text \<open>
  Whether a value is an ECMAScript Object: the reflective reads
  (\<^verbatim>\<open>Reflect.getMetadata\<close>) raise a \<^verbatim>\<open>TypeError\<close> on anything else.
\<close>

fun isObject :: "jsval \<Rightarrow> bool" where
  "isObject (JArray xs) = True"
| "isObject (JObject i m ps) = True"
| "isObject (JFunction i c) = True"
| "isObject (JBound f t) = True"
| "isObject v = False"

text \<open>
  \<^verbatim>\<open>function isConstructor(o) {
    return typeof o === 'function' && o.prototype && o.prototype.constructor === o; }\<close>
\<close>

fun isConstructor :: "jsval \<Rightarrow> bool" where
  "isConstructor (JFunction i c) = (c = Some i)"
| "isConstructor v = False"

section \<open>Metadata records and their guards\<close>

text \<open>
  \<^verbatim>\<open>isControllerMetadata\<close>: an object, not null, with a string \<^verbatim>\<open>path\<close> and an array
  \<^verbatim>\<open>middlewares\<close> whose every element is a function or an instance of
  \<^verbatim>\<open>Middleware\<close>.
\<close>

definition middleware_shape :: "jsval \<Rightarrow> bool" where
  "middleware_shape middleware \<longleftrightarrow>
     typeof middleware = ''function'' \<or> instanceof_Middleware middleware"

definition isControllerMetadata :: "jsval \<Rightarrow> bool" where
  "isControllerMetadata o' \<longleftrightarrow>
     (if typeof o' \<noteq> ''object'' \<or> o' = JNull \<or> o' = JUndefined then False
      else typeof (get_property o' ''path'') = ''string'' \<and>
           isArray (get_property o' ''middlewares'') \<and>
           list_all middleware_shape (elements (get_property o' ''middlewares'')))"

text \<open>\<^verbatim>\<open>isHandlerMetadata\<close>: as above, and \<^verbatim>\<open>method\<close> is a string.\<close>

definition isHandlerMetadata :: "jsval \<Rightarrow> bool" where
  "isHandlerMetadata o' \<longleftrightarrow>
     (if typeof o' \<noteq> ''object'' \<or> o' = JNull \<or> o' = JUndefined then False
      else typeof (get_property o' ''method'') = ''string'' \<and>
           typeof (get_property o' ''path'') = ''string'' \<and>
           isArray (get_property o' ''middlewares'') \<and>
           list_all middleware_shape (elements (get_property o' ''middlewares'')))"

text \<open>
  The records the decorators \<^verbatim>\<open>Controller(path, middlewares)\<close> and
  \<^verbatim>\<open>Get/Post/Put/Delete/Patch(path, middlewares)\<close> store. The object literal is
  created by the decorator; its identity plays no part in binding.
\<close>

definition ControllerMetadata :: "string \<Rightarrow> jsval list \<Rightarrow> jsval" where
  "ControllerMetadata path middlewares =
     JObject 0 False [(''path'', JString path), (''middlewares'', JArray middlewares)]"

definition HandlerMetadata :: "string \<Rightarrow> string \<Rightarrow> jsval list \<Rightarrow> jsval" where
  "HandlerMetadata method path middlewares =
     JObject 0 False [(''method'', JString method), (''path'', JString path),
                      (''middlewares'', JArray middlewares)]"

text \<open>\<^verbatim>\<open>type HandlerMethod = 'get' | 'post' | 'put' | 'delete' | 'patch'\<close>\<close>

definition isHandlerMethod :: "string \<Rightarrow> bool" where
  "isHandlerMethod method \<longleftrightarrow>
     method \<in> set [''get'', ''post'', ''put'', ''delete'', ''patch'']"

section \<open>Errors, the application and the reflective environment\<close>

text \<open>
  Every \<^verbatim>\<open>throw\<close> of the source is a constructor; the message is given beside it.
  \<open>TypeError\<close> is raised by the language or by \<^verbatim>\<open>reflect-metadata\<close>, not by the
  package: a reflective read on a non-object, \<^verbatim>\<open>Object.getOwnPropertyNames(null)\<close>,
  \<^verbatim>\<open>x.handle.bind\<close> where \<^verbatim>\<open>x.handle\<close> is not a function.
  \<open>OutsideHandlerMethod\<close> marks \<^verbatim>\<open>router[method]\<close> for a string outside the type
  \<^verbatim>\<open>HandlerMethod\<close>: the guard \<^verbatim>\<open>isHandlerMetadata\<close> lets such a string through,
  and what Express does with it is not part of this package; the model stops there.
\<close>

datatype error =
    NoContainerForMiddleware
      \<comment> \<open>\<^verbatim>\<open>Add container to use middleware without instantiate.\<close>\<close>
  | NoContainerForController
      \<comment> \<open>\<^verbatim>\<open>Add container to use controller without instantiate.\<close>\<close>
  | InvalidControllerMetadata nat
      \<comment> \<open>\<^verbatim>\<open>Controller at index '${index}' has invalid metadata.\<close>\<close>
  | InvalidHandlerMetadata string nat
      \<comment> \<open>\<^verbatim>\<open>Method '${name}' in controller at index '${index}' has invalid metadata.\<close>\<close>
  | TypeError
  | OutsideHandlerMethod string

text \<open>The two error kinds of the specification.\<close>

fun MissingResolver :: "error \<Rightarrow> bool" where
  "MissingResolver NoContainerForMiddleware = True"
| "MissingResolver NoContainerForController = True"
| "MissingResolver e = False"

fun MissingMetadata :: "error \<Rightarrow> bool" where
  "MissingMetadata (InvalidControllerMetadata index) = True"
| "MissingMetadata (InvalidHandlerMetadata name index) = True"
| "MissingMetadata e = False"

text \<open>
  A route of a sub-router: the call \<^verbatim>\<open>router[method](path, ...handlers)\<close>.
  A layer of the application: a call of \<^verbatim>\<open>app.use\<close>, either
  \<^verbatim>\<open>app.use(path, ...handlers, router)\<close> or \<^verbatim>\<open>app.use(handlers)\<close>.
\<close>

datatype route = Route (verb: string) (route_path: string) (chain: "jsval list")

datatype layer =
    Mounted (mount_path: string) (mount_handlers: "jsval list") (mount_router: "route list")
  | Handlers "jsval list"

datatype descriptor = Descriptor (desc_value: jsval)

text \<open>
  The world the binder runs in. The first four fields are what the reflective reads
  of the source answer (\<^verbatim>\<open>Reflect.getMetadata(key, target, property?)\<close>,
  \<^verbatim>\<open>Object.getPrototypeOf\<close>, \<^verbatim>\<open>Object.getOwnPropertyNames\<close>,
  \<^verbatim>\<open>Object.getOwnPropertyDescriptor\<close>); \<open>app\<close> is the stack of layers that
  \<^verbatim>\<open>app.use\<close> has built so far. A descriptor of an accessor property has the value
  \<^verbatim>\<open>undefined\<close>.
\<close>

record world =
  getMetadata :: "string \<Rightarrow> jsval \<Rightarrow> string option \<Rightarrow> jsval"
  getPrototypeOf :: "jsval \<Rightarrow> jsval"
  getOwnPropertyNames :: "jsval \<Rightarrow> string list"
  getOwnPropertyDescriptor :: "jsval \<Rightarrow> string \<Rightarrow> descriptor option"
  app :: "layer list"

text \<open>
  \<^verbatim>\<open>interface Container { get<T>(instanceConstructor: Constructor<T>): T }\<close>, optional
  in \<^verbatim>\<open>applyExpressDecorator(app, container?)\<close>. The container is supplied by the
  caller; the model takes \<^verbatim>\<open>get\<close> as a function of the class.
\<close>

type_synonym container = "jsval \<Rightarrow> jsval"

datatype outcome = Returned | Threw error

section \<open>transformMiddlewares\<close>

text \<open>\<^verbatim>\<open>x.handle.bind(x)\<close>\<close>

definition bind_handle :: "jsval \<Rightarrow> error + jsval" where
  "bind_handle instance =
     (if typeof (get_property instance ''handle'') = ''function''
      then Inr (JBound (get_property instance ''handle'') instance)
      else Inl TypeError)"

text \<open>The callback of \<^verbatim>\<open>middlewares.map\<close> in \<^verbatim>\<open>transformMiddlewares\<close>.\<close>

definition transformMiddleware :: "container option \<Rightarrow> jsval \<Rightarrow> error + jsval" where
  "transformMiddleware container middleware =
     (if isConstructor middleware then
        (case container of
           None \<Rightarrow> Inl NoContainerForMiddleware
         | Some get \<Rightarrow> bind_handle (get middleware))
      else if typeof middleware = ''function'' then Inr middleware
      else bind_handle middleware)"

text \<open>\<^verbatim>\<open>map\<close> goes left to right and the first \<^verbatim>\<open>throw\<close> ends it.\<close>

fun transformMiddlewares :: "container option \<Rightarrow> jsval list \<Rightarrow> error + jsval list" where
  "transformMiddlewares container [] = Inr []"
| "transformMiddlewares container (middleware # middlewares) =
     (case transformMiddleware container middleware of
        Inl e \<Rightarrow> Inl e
      | Inr handler \<Rightarrow>
          (case transformMiddlewares container middlewares of
             Inl e \<Rightarrow> Inl e
           | Inr handlers \<Rightarrow> Inr (handler # handlers)))"

section \<open>useControllers\<close>

text \<open>
  The body of the inner loop for one property name of the controller's prototype:
  \<open>Inr None\<close> is \<^verbatim>\<open>continue\<close>, \<open>Inr (Some r)\<close> is the route handed to
  \<^verbatim>\<open>router[handlerMetadata.method]\<close>, \<open>Inl e\<close> is a \<^verbatim>\<open>throw\<close>. The arguments of
  the router call are evaluated before the call.
\<close>

definition bind_property ::
  "container option \<Rightarrow> world \<Rightarrow> nat \<Rightarrow> jsval \<Rightarrow> jsval \<Rightarrow> string \<Rightarrow> error + route option" where
  "bind_property container w index controllerInstance controllerPrototype name =
     (if name = ''constructor'' then Inr None
      else (case getOwnPropertyDescriptor w controllerPrototype name of
        None \<Rightarrow> Inr None
      | Some descriptor \<Rightarrow>
          (if typeof (desc_value descriptor) \<noteq> ''function'' then Inr None
           else
            (let handlerMetadata = getMetadata w ''malmajs:handler'' controllerInstance (Some name)
             in if \<not> isHandlerMetadata handlerMetadata
                then Inl (InvalidHandlerMetadata name index)
                else
                 (case transformMiddlewares container
                        (elements (get_property handlerMetadata ''middlewares'')) of
                    Inl e \<Rightarrow> Inl e
                  | Inr handlers \<Rightarrow>
                     (if isHandlerMethod (string_of (get_property handlerMetadata ''method''))
                      then Inr (Some (Route
                            (string_of (get_property handlerMetadata ''method''))
                            (string_of (get_property handlerMetadata ''path''))
                            (handlers @ [JBound (desc_value descriptor) controllerInstance])))
                      else Inl (OutsideHandlerMethod
                            (string_of (get_property handlerMetadata ''method'')))))))))"

text \<open>\<^verbatim>\<open>for (const controllerPropertyName of controllerPropertyNames)\<close>, on a router
  that starts empty (\<^verbatim>\<open>Router()\<close>).\<close>

fun bind_properties ::
  "container option \<Rightarrow> world \<Rightarrow> nat \<Rightarrow> jsval \<Rightarrow> jsval \<Rightarrow> string list \<Rightarrow> route list
     \<Rightarrow> error + route list" where
  "bind_properties container w index inst proto [] routes = Inr routes"
| "bind_properties container w index inst proto (name # names) routes =
     (case bind_property container w index inst proto name of
        Inl e \<Rightarrow> Inl e
      | Inr None \<Rightarrow> bind_properties container w index inst proto names routes
      | Inr (Some r) \<Rightarrow> bind_properties container w index inst proto names (routes @ [r]))"

text \<open>Lines 116 to 124: an argument that is not an object goes to the container.\<close>

definition resolve_controller :: "container option \<Rightarrow> jsval \<Rightarrow> error + jsval" where
  "resolve_controller container controller =
     (if typeof controller \<noteq> ''object'' then
        (case container of
           None \<Rightarrow> Inl NoContainerForController
         | Some get \<Rightarrow> Inr (get controller))
      else Inr controller)"

text \<open>
  One turn of the outer loop, up to the arguments of the final \<^verbatim>\<open>app.use\<close>: the
  layer to push, or the error thrown. The routes go to a router that is local to
  the turn, so a \<^verbatim>\<open>throw\<close> leaves the application as it was before the turn.
\<close>

definition bind_controller ::
  "container option \<Rightarrow> world \<Rightarrow> nat \<Rightarrow> jsval \<Rightarrow> error + layer" where
  "bind_controller container w index controller =
     (case resolve_controller container controller of
        Inl e \<Rightarrow> Inl e
      | Inr controllerInstance \<Rightarrow>
          (if \<not> isObject controllerInstance then Inl TypeError
           else
            (let controllerMetadata = getMetadata w ''malmajs:controller'' controllerInstance None
             in if \<not> isControllerMetadata controllerMetadata
                then Inl (InvalidControllerMetadata index)
                else
                 (let controllerPrototype = getPrototypeOf w controllerInstance
                  in if \<not> isObject controllerPrototype then Inl TypeError
                     else
                      (case bind_properties container w index controllerInstance
                             controllerPrototype
                             (getOwnPropertyNames w controllerPrototype) [] of
                         Inl e \<Rightarrow> Inl e
                       | Inr routes \<Rightarrow>
                          (case transformMiddlewares container
                                  (elements (get_property controllerMetadata ''middlewares'')) of
                             Inl e \<Rightarrow> Inl e
                           | Inr handlers \<Rightarrow>
                               Inr (Mounted (string_of (get_property controllerMetadata ''path''))
                                      handlers routes)))))))"

text \<open>\<^verbatim>\<open>for (const index in controllers)\<close>, from a given index on.\<close>

fun useControllers_from ::
  "container option \<Rightarrow> nat \<Rightarrow> jsval list \<Rightarrow> world \<Rightarrow> outcome \<times> world" where
  "useControllers_from container index [] w = (Returned, w)"
| "useControllers_from container index (controller # controllers) w =
     (case bind_controller container w index controller of
        Inl e \<Rightarrow> (Threw e, w)
      | Inr l \<Rightarrow>
          useControllers_from container (Suc index) controllers (w\<lparr>app := app w @ [l]\<rparr>))"

definition useControllers :: "container option \<Rightarrow> jsval list \<Rightarrow> world \<Rightarrow> outcome \<times> world" where
  "useControllers container controllers w = useControllers_from container 0 controllers w"

section \<open>The specification's view of a binding\<close>

text \<open>
  The specification speaks of the own methods of a controller (constructor
  excluded), of the annotated ones among them, and of a binding result: an ordered
  list of tuples (verb, fullPath, orderedHandlerChain) with fullPath = basePath +
  routePath and orderedHandlerChain = mount-level middleware, then route-level
  middleware, then the bound method. The definitions of this section follow those
  words; the theorems below compare them with what \<open>useControllers\<close> does.
\<close>

definition is_own_method :: "world \<Rightarrow> jsval \<Rightarrow> string \<Rightarrow> bool" where
  "is_own_method w proto name \<longleftrightarrow>
     name \<noteq> ''constructor'' \<and>
     (case getOwnPropertyDescriptor w proto name of
        None \<Rightarrow> False
      | Some descriptor \<Rightarrow> typeof (desc_value descriptor) = ''function'')"

definition own_methods :: "world \<Rightarrow> jsval \<Rightarrow> string list" where
  "own_methods w inst =
     filter (is_own_method w (getPrototypeOf w inst))
       (getOwnPropertyNames w (getPrototypeOf w inst))"

definition has_RouteMetadata :: "world \<Rightarrow> jsval \<Rightarrow> string \<Rightarrow> bool" where
  "has_RouteMetadata w inst name \<longleftrightarrow>
     isHandlerMetadata (getMetadata w ''malmajs:handler'' inst (Some name))"

definition annotated_methods :: "world \<Rightarrow> jsval \<Rightarrow> string list" where
  "annotated_methods w inst = filter (has_RouteMetadata w inst) (own_methods w inst)"

definition method_value :: "world \<Rightarrow> jsval \<Rightarrow> string \<Rightarrow> jsval" where
  "method_value w inst name =
     (case getOwnPropertyDescriptor w (getPrototypeOf w inst) name of
        None \<Rightarrow> JUndefined
      | Some descriptor \<Rightarrow> desc_value descriptor)"

definition handlers_of :: "container option \<Rightarrow> jsval list \<Rightarrow> jsval list" where
  "handlers_of container middlewares =
     (case transformMiddlewares container middlewares of Inl e \<Rightarrow> [] | Inr handlers \<Rightarrow> handlers)"

definition spec_route :: "container option \<Rightarrow> world \<Rightarrow> jsval \<Rightarrow> string \<Rightarrow> route" where
  "spec_route container w inst name =
     Route
       (string_of (get_property (getMetadata w ''malmajs:handler'' inst (Some name)) ''method''))
       (string_of (get_property (getMetadata w ''malmajs:handler'' inst (Some name)) ''path''))
       (handlers_of container
          (elements (get_property (getMetadata w ''malmajs:handler'' inst (Some name))
             ''middlewares''))
        @ [JBound (method_value w inst name) inst])"

definition spec_mount :: "container option \<Rightarrow> world \<Rightarrow> jsval \<Rightarrow> layer" where
  "spec_mount container w inst =
     Mounted
       (string_of (get_property (getMetadata w ''malmajs:controller'' inst None) ''path''))
       (handlers_of container
          (elements (get_property (getMetadata w ''malmajs:controller'' inst None)
             ''middlewares'')))
       (map (spec_route container w inst) (annotated_methods w inst))"

definition instance_of :: "container option \<Rightarrow> jsval \<Rightarrow> jsval" where
  "instance_of container controller =
     (case resolve_controller container controller of
        Inl e \<Rightarrow> controller
      | Inr inst \<Rightarrow> inst)"

fun layer_result :: "layer \<Rightarrow> (string \<times> string \<times> jsval list) list" where
  "layer_result (Mounted basePath mountHandlers routes) =
     map (\<lambda>r. (verb r, basePath @ route_path r, mountHandlers @ chain r)) routes"
| "layer_result (Handlers hs) = []"

definition binding_result :: "layer list \<Rightarrow> (string \<times> string \<times> jsval list) list" where
  "binding_result layers = concat (map layer_result layers)"

text \<open>
  A middleware reference that \<open>transformMiddleware\<close> can turn into a handler: a class
  whose instance, as the container gives it, has a function \<^verbatim>\<open>handle\<close>; a
  function; or an object with a function \<^verbatim>\<open>handle\<close>.
\<close>

definition resolvable :: "container option \<Rightarrow> jsval \<Rightarrow> bool" where
  "resolvable container middleware \<longleftrightarrow>
     (if isConstructor middleware then
        (case container of
           None \<Rightarrow> False
         | Some get \<Rightarrow> typeof (get_property (get middleware) ''handle'') = ''function'')
      else typeof middleware = ''function'' \<or>
           typeof (get_property middleware ''handle'') = ''function'')"

text \<open>
  A validly annotated controller instance: an object that carries a well-shaped
  controller record, whose prototype is an object, whose own methods all carry a
  well-shaped handler record with a verb of \<^verbatim>\<open>HandlerMethod\<close>, and whose
  middleware references are all resolvable.
\<close>

definition valid_method :: "container option \<Rightarrow> world \<Rightarrow> jsval \<Rightarrow> string \<Rightarrow> bool" where
  "valid_method container w inst name \<longleftrightarrow>
     has_RouteMetadata w inst name \<and>
     isHandlerMethod
       (string_of (get_property (getMetadata w ''malmajs:handler'' inst (Some name)) ''method'')) \<and>
     list_all (resolvable container)
       (elements (get_property (getMetadata w ''malmajs:handler'' inst (Some name))
          ''middlewares''))"

definition validly_annotated :: "container option \<Rightarrow> world \<Rightarrow> jsval \<Rightarrow> bool" where
  "validly_annotated container w inst \<longleftrightarrow>
     isObject inst \<and>
     isControllerMetadata (getMetadata w ''malmajs:controller'' inst None) \<and>
     isObject (getPrototypeOf w inst) \<and>
     list_all (valid_method container w inst) (own_methods w inst) \<and>
     list_all (resolvable container)
       (elements (get_property (getMetadata w ''malmajs:controller'' inst None)
          ''middlewares''))"

section \<open>A small application\<close>

text \<open>
  The objects of a small application, used to run the binder on concrete input.
  \<^verbatim>\<open>
  const mwA = (req, res, next) => next();               // mwB, mwC alike
  @Controller('/users', [mwA, mwB])
  class UserController {
    @Get('/list', [mwC]) list(req, res) {}
    @Post('/create') create(req, res) {}
  }
  UserController.prototype.version = '1.0';             // an own property, not a function
  class PlainController { index(req, res) {} }          // no decorator at all
  @Controller('/jobs') class JobController {
    @Get('/') index(req, res) {}
    helper() {}                                          // a method with no decorator
  }
  function logger(req, res, next) { next(); }           // written with "function"
  @Controller('/api', [logger]) class ApiController {}
  class AuthMiddleware extends Middleware { handle(req, res, next) {} }
  const userController = new UserController();           // and so on, one instance each
  \<close>
\<close>

definition mwA :: jsval where "mwA = JFunction 10 None"
definition mwB :: jsval where "mwB = JFunction 11 None"
definition mwC :: jsval where "mwC = JFunction 12 None"
definition logger :: jsval where "logger = JFunction 13 (Some 13)"

definition UserController :: jsval where "UserController = JFunction 20 (Some 20)"
definition userPrototype :: jsval where "userPrototype = JObject 21 False []"
definition userController :: jsval where "userController = JObject 22 False []"
definition list_method :: jsval where "list_method = JFunction 23 None"
definition create_method :: jsval where "create_method = JFunction 24 None"

definition PlainController :: jsval where "PlainController = JFunction 30 (Some 30)"
definition plainPrototype :: jsval where "plainPrototype = JObject 31 False []"
definition plainController :: jsval where "plainController = JObject 32 False []"
definition index_method :: jsval where "index_method = JFunction 33 None"

definition JobController :: jsval where "JobController = JFunction 40 (Some 40)"
definition jobPrototype :: jsval where "jobPrototype = JObject 41 False []"
definition jobController :: jsval where "jobController = JObject 42 False []"
definition job_index_method :: jsval where "job_index_method = JFunction 43 None"
definition helper_method :: jsval where "helper_method = JFunction 44 None"

definition ApiController :: jsval where "ApiController = JFunction 60 (Some 60)"
definition apiPrototype :: jsval where "apiPrototype = JObject 61 False []"
definition apiController :: jsval where "apiController = JObject 62 False []"

definition AuthMiddleware :: jsval where "AuthMiddleware = JFunction 50 (Some 50)"
definition auth_handle :: jsval where "auth_handle = JFunction 51 None"
definition authMiddleware :: jsval where
  "authMiddleware = JObject 52 True [(''handle'', auth_handle)]"

definition demo_getMetadata :: "string \<Rightarrow> jsval \<Rightarrow> string option \<Rightarrow> jsval" where
  "demo_getMetadata key target property =
     (if key = ''malmajs:controller'' \<and> property = None then
        (if target = userController then ControllerMetadata ''/users'' [mwA, mwB]
         else if target = jobController then ControllerMetadata ''/jobs'' []
         else if target = apiController then ControllerMetadata ''/api'' [logger]
         else JUndefined)
      else if key = ''malmajs:handler'' then
        (if target = userController \<and> property = Some ''list''
           then HandlerMetadata ''get'' ''/list'' [mwC]
         else if target = userController \<and> property = Some ''create''
           then HandlerMetadata ''post'' ''/create'' []
         else if target = jobController \<and> property = Some ''index''
           then HandlerMetadata ''get'' ''/'' []
         else JUndefined)
      else JUndefined)"

definition demo_getPrototypeOf :: "jsval \<Rightarrow> jsval" where
  "demo_getPrototypeOf v =
     (if v = userController then userPrototype
      else if v = plainController then plainPrototype
      else if v = jobController then jobPrototype
      else if v = apiController then apiPrototype
      else JNull)"

definition demo_getOwnPropertyNames :: "jsval \<Rightarrow> string list" where
  "demo_getOwnPropertyNames v =
     (if v = userPrototype then [''constructor'', ''list'', ''create'', ''version'']
      else if v = plainPrototype then [''constructor'', ''index'']
      else if v = jobPrototype then [''constructor'', ''index'', ''helper'']
      else if v = apiPrototype then [''constructor'']
      else [])"

definition demo_getOwnPropertyDescriptor :: "jsval \<Rightarrow> string \<Rightarrow> descriptor option" where
  "demo_getOwnPropertyDescriptor v name =
     (if v = userPrototype then
        (if name = ''constructor'' then Some (Descriptor UserController)
         else if name = ''list'' then Some (Descriptor list_method)
         else if name = ''create'' then Some (Descriptor create_method)
         else if name = ''version'' then Some (Descriptor (JString ''1.0''))
         else None)
      else if v = plainPrototype then
        (if name = ''constructor'' then Some (Descriptor PlainController)
         else if name = ''index'' then Some (Descriptor index_method)
         else None)
      else if v = jobPrototype then
        (if name = ''constructor'' then Some (Descriptor JobController)
         else if name = ''index'' then Some (Descriptor job_index_method)
         else if name = ''helper'' then Some (Descriptor helper_method)
         else None)
      else if v = apiPrototype then
        (if name = ''constructor'' then Some (Descriptor ApiController) else None)
      else None)"

definition demo_world :: world where
  "demo_world =
     \<lparr> getMetadata = demo_getMetadata,
       getPrototypeOf = demo_getPrototypeOf,
       getOwnPropertyNames = demo_getOwnPropertyNames,
       getOwnPropertyDescriptor = demo_getOwnPropertyDescriptor,
       app = [] \<rparr>"

text \<open>A container that knows the three classes of the application.\<close>

definition demo_container :: container where
  "demo_container c =
     (if c = UserController then userController
      else if c = PlainController then plainController
      else if c = AuthMiddleware then authMiddleware
      else JUndefined)"

section \<open>Properties of the binder\<close>

lemmas demo_defs = demo_world_def demo_getMetadata_def demo_getPrototypeOf_def
  demo_getOwnPropertyNames_def demo_getOwnPropertyDescriptor_def demo_container_def
  mwA_def mwB_def mwC_def logger_def UserController_def userPrototype_def userController_def
  list_method_def create_method_def PlainController_def plainPrototype_def plainController_def
  index_method_def JobController_def jobPrototype_def jobController_def job_index_method_def
  helper_method_def AuthMiddleware_def auth_handle_def authMiddleware_def
  ApiController_def apiPrototype_def apiController_def

lemmas binder_defs = useControllers_def bind_controller_def resolve_controller_def
  bind_property_def isControllerMetadata_def isHandlerMetadata_def ControllerMetadata_def
  HandlerMetadata_def middleware_shape_def isHandlerMethod_def transformMiddleware_def
  bind_handle_def Let_def

subsection \<open>The binder reads the world and writes only the application\<close>

lemma bind_property_app:
  "bind_property c (w\<lparr>app := a\<rparr>) i inst proto name = bind_property c w i inst proto name"
  by (simp add: bind_property_def cong: option.case_cong if_cong)

lemma bind_properties_app:
  "bind_properties c (w\<lparr>app := a\<rparr>) i inst proto names rs = bind_properties c w i inst proto names rs"
  by (induction names arbitrary: rs) (simp_all add: bind_property_app cong: sum.case_cong option.case_cong)

lemma bind_controller_app:
  "bind_controller c (w\<lparr>app := a\<rparr>) i x = bind_controller c w i x"
  by (simp add: bind_controller_def bind_properties_app cong: sum.case_cong if_cong)

lemma useControllers_from_normal:
  "useControllers_from c i cs w =
     (fst (useControllers_from c i cs (w\<lparr>app := []\<rparr>)),
      w\<lparr>app := app w @ app (snd (useControllers_from c i cs (w\<lparr>app := []\<rparr>)))\<rparr>)"
proof (induction cs arbitrary: i w)
  case Nil
  show ?case by simp
next
  case (Cons x xs)
  show ?case
  proof (cases "bind_controller c w i x")
    case (Inl e)
    then show ?thesis by (simp add: bind_controller_app)
  next
    case (Inr l)
    let ?R = "useControllers_from c (Suc i) xs (w\<lparr>app := []\<rparr>)"
    have a: "useControllers_from c (Suc i) xs (w\<lparr>app := app w @ [l]\<rparr>) =
               (fst ?R, w\<lparr>app := (app w @ [l]) @ app (snd ?R)\<rparr>)"
      using Cons.IH [where i = "Suc i" and w = "w\<lparr>app := app w @ [l]\<rparr>"] by simp
    have b: "useControllers_from c (Suc i) xs (w\<lparr>app := [l]\<rparr>) =
               (fst ?R, w\<lparr>app := [l] @ app (snd ?R)\<rparr>)"
      using Cons.IH [where i = "Suc i" and w = "w\<lparr>app := [l]\<rparr>"] by simp
    show ?thesis using Inr a b by (simp add: bind_controller_app)
  qed
qed

lemma useControllers_from_length:
  "length (app (snd (useControllers_from c i cs w))) \<le> length (app w) + length cs \<and>
   (fst (useControllers_from c i cs w) = Returned \<longrightarrow>
      length (app (snd (useControllers_from c i cs w))) = length (app w) + length cs)"
proof (induction cs arbitrary: i w)
  case Nil
  show ?case by simp
next
  case (Cons x xs)
  show ?case
  proof (cases "bind_controller c w i x")
    case (Inl e)
    then show ?thesis by simp
  next
    case (Inr l)
    then show ?thesis
      using Cons.IH [where i = "Suc i" and w = "w\<lparr>app := app w @ [l]\<rparr>"] by simp
  qed
qed

lemma useControllers_from_append:
  "useControllers_from c i (xs @ ys) w =
     (case useControllers_from c i xs w of
        (Returned, w1) \<Rightarrow> useControllers_from c (i + length xs) ys w1
      | (Threw e, w1) \<Rightarrow> (Threw e, w1))"
  by (induction xs arbitrary: i w) (simp_all split: sum.splits prod.splits outcome.splits)


subsection \<open>When the pieces succeed\<close>

lemma transformMiddleware_Inr_iff:
  "(\<exists>h. transformMiddleware c m = Inr h) \<longleftrightarrow> resolvable c m"
  by (simp add: transformMiddleware_def resolvable_def bind_handle_def split: option.splits)

lemma transformMiddlewares_Inr_iff:
  "(\<exists>hs. transformMiddlewares c ms = Inr hs) \<longleftrightarrow> list_all (resolvable c) ms"
proof (induction ms)
  case Nil
  show ?case by simp
next
  case (Cons m ms)
  show ?case
  proof (cases "transformMiddleware c m")
    case (Inl e)
    with transformMiddleware_Inr_iff [of c m] show ?thesis by simp
  next
    case (Inr h)
    with transformMiddleware_Inr_iff [of c m] have "resolvable c m" by auto
    with Inr Cons.IH show ?thesis by (auto split: sum.splits)
  qed
qed

lemma transformMiddlewares_handlers_of:
  "transformMiddlewares c ms = Inr hs \<Longrightarrow> handlers_of c ms = hs"
  by (simp add: handlers_of_def)

lemma transformMiddlewares_resolvable:
  "list_all (resolvable c) ms \<Longrightarrow> transformMiddlewares c ms = Inr (handlers_of c ms)"
  using transformMiddlewares_Inr_iff [of c ms] by (auto simp: handlers_of_def)

lemma transformMiddlewares_length:
  "transformMiddlewares c ms = Inr hs \<Longrightarrow> length hs = length ms"
  by (induction ms arbitrary: hs) (auto split: sum.splits)

lemma bind_property_cases:
  "bind_property c w i inst (getPrototypeOf w inst) name =
     (if \<not> is_own_method w (getPrototypeOf w inst) name then Inr None
      else if \<not> has_RouteMetadata w inst name then Inl (InvalidHandlerMetadata name i)
      else if valid_method c w inst name then Inr (Some (spec_route c w inst name))
      else bind_property c w i inst (getPrototypeOf w inst) name)"
proof -
  let ?ms = "elements (get_property (getMetadata w ''malmajs:handler'' inst (Some name)) ''middlewares'')"
  have "transformMiddlewares c ?ms = Inr (handlers_of c ?ms)" if "list_all (resolvable c) ?ms"
    using that by (rule transformMiddlewares_resolvable)
  then show ?thesis
    by (auto simp: bind_property_def is_own_method_def has_RouteMetadata_def valid_method_def
        spec_route_def method_value_def Let_def split: option.splits)
qed

lemma bind_property_invalid:
  "is_own_method w (getPrototypeOf w inst) name \<Longrightarrow> \<not> valid_method c w inst name \<Longrightarrow>
     \<exists>e. bind_property c w i inst (getPrototypeOf w inst) name = Inl e"
proof -
  let ?ms = "elements (get_property (getMetadata w ''malmajs:handler'' inst (Some name)) ''middlewares'')"
  assume a: "is_own_method w (getPrototypeOf w inst) name" "\<not> valid_method c w inst name"
  have "\<exists>e. transformMiddlewares c ?ms = Inl e" if "\<not> list_all (resolvable c) ?ms"
    using that transformMiddlewares_Inr_iff [of c ?ms] by (cases "transformMiddlewares c ?ms") auto
  with a show ?thesis
    by (auto simp: bind_property_def is_own_method_def has_RouteMetadata_def valid_method_def
        Let_def split: option.splits sum.splits)
qed

lemma bind_properties_filter:
  "bind_properties c w i inst proto names rs =
     bind_properties c w i inst proto (filter (is_own_method w proto) names) rs"
proof (induction names arbitrary: rs)
  case Nil
  show ?case by simp
next
  case (Cons n names)
  have "bind_property c w i inst proto n = Inr None" if "\<not> is_own_method w proto n"
    using that by (auto simp: bind_property_def is_own_method_def split: option.splits)
  with Cons show ?case by (simp cong: sum.case_cong option.case_cong)
qed

lemma bind_properties_valid:
  "list_all (valid_method c w inst) (filter (is_own_method w (getPrototypeOf w inst)) names) \<Longrightarrow>
     bind_properties c w i inst (getPrototypeOf w inst) names rs =
       Inr (rs @ map (spec_route c w inst) (filter (is_own_method w (getPrototypeOf w inst)) names))"
proof (induction names arbitrary: rs)
  case Nil
  show ?case by simp
next
  case (Cons n names)
  show ?case
  proof (cases "is_own_method w (getPrototypeOf w inst) n")
    case True
    with Cons.prems have v: "valid_method c w inst n" by simp
    then have "has_RouteMetadata w inst n" by (simp add: valid_method_def)
    with True v have "bind_property c w i inst (getPrototypeOf w inst) n = Inr (Some (spec_route c w inst n))"
      using bind_property_cases [of c w i inst n] by simp
    with True Cons show ?thesis by simp
  next
    case False
    then have "bind_property c w i inst (getPrototypeOf w inst) n = Inr None"
      using bind_property_cases [of c w i inst n] by simp
    with False Cons show ?thesis by simp
  qed
qed

lemma bind_properties_invalid:
  "\<not> list_all (valid_method c w inst) (filter (is_own_method w (getPrototypeOf w inst)) names) \<Longrightarrow>
     \<exists>e. bind_properties c w i inst (getPrototypeOf w inst) names rs = Inl e"
proof (induction names arbitrary: rs)
  case Nil
  then show ?case by simp
next
  case (Cons n names)
  show ?case
  proof (cases "bind_property c w i inst (getPrototypeOf w inst) n")
    case (Inl e)
    then show ?thesis by simp
  next
    case (Inr r)
    have ok: "is_own_method w (getPrototypeOf w inst) n \<longrightarrow> valid_method c w inst n"
      using Inr bind_property_invalid [of w inst n c i] by auto
    with Cons.prems have "\<not> list_all (valid_method c w inst)
        (filter (is_own_method w (getPrototypeOf w inst)) names)" by (auto split: if_splits)
    from Cons.IH [OF this] Inr show ?thesis by (cases r) auto
  qed
qed

lemma annotated_methods_valid:
  "list_all (valid_method c w inst) (own_methods w inst) \<Longrightarrow>
     annotated_methods w inst = own_methods w inst"
  unfolding annotated_methods_def
  by (rule filter_True) (auto simp: list_all_iff valid_method_def)

lemma bind_controller_Inr_iff:
  "bind_controller c w i x = Inr l \<longleftrightarrow>
     (\<exists>inst. resolve_controller c x = Inr inst \<and> validly_annotated c w inst \<and>
             l = spec_mount c w inst)"
proof (cases "resolve_controller c x")
  case (Inl e)
  then show ?thesis by (simp add: bind_controller_def)
next
  case (Inr inst)
  let ?cm = "getMetadata w ''malmajs:controller'' inst None"
  let ?ms = "elements (get_property ?cm ''middlewares'')"
  let ?proto = "getPrototypeOf w inst"
  show ?thesis
  proof (cases "isObject inst \<and> isControllerMetadata ?cm \<and> isObject ?proto")
    case False
    with Inr show ?thesis by (auto simp: bind_controller_def validly_annotated_def Let_def)
  next
    case shape: True
    show ?thesis
    proof (cases "list_all (valid_method c w inst) (own_methods w inst)")
      case False
      then obtain e where "bind_properties c w i inst ?proto (getOwnPropertyNames w ?proto) [] = Inl e"
        using bind_properties_invalid [of c w inst "getOwnPropertyNames w ?proto" i "[]"]
        by (auto simp: own_methods_def)
      with Inr shape False show ?thesis
        by (simp add: bind_controller_def validly_annotated_def Let_def)
    next
      case True
      then have bp: "bind_properties c w i inst ?proto (getOwnPropertyNames w ?proto) [] =
          Inr (map (spec_route c w inst) (annotated_methods w inst))"
        using bind_properties_valid [of c w inst "getOwnPropertyNames w ?proto" i "[]"]
          annotated_methods_valid [of c w inst]
        by (simp add: own_methods_def)
      show ?thesis
      proof (cases "list_all (resolvable c) ?ms")
        case False
        then obtain e where "transformMiddlewares c ?ms = Inl e"
          using transformMiddlewares_Inr_iff [of c ?ms] by (cases "transformMiddlewares c ?ms") auto
        with Inr shape bp False show ?thesis
          by (simp add: bind_controller_def validly_annotated_def Let_def)
      next
        case res: True
        then have "transformMiddlewares c ?ms = Inr (handlers_of c ?ms)"
          by (rule transformMiddlewares_resolvable)
        with Inr shape bp True res show ?thesis
          by (auto simp: bind_controller_def validly_annotated_def Let_def spec_mount_def)
      qed
    qed
  qed
qed


subsection \<open>The whole loop\<close>

lemma is_own_method_app: "is_own_method (w\<lparr>app := a\<rparr>) = is_own_method w"
  by (simp add: fun_eq_iff is_own_method_def)

lemma has_RouteMetadata_app: "has_RouteMetadata (w\<lparr>app := a\<rparr>) = has_RouteMetadata w"
  by (simp add: fun_eq_iff has_RouteMetadata_def)

lemma own_methods_app: "own_methods (w\<lparr>app := a\<rparr>) = own_methods w"
  by (simp add: fun_eq_iff own_methods_def is_own_method_app)

lemma annotated_methods_app: "annotated_methods (w\<lparr>app := a\<rparr>) = annotated_methods w"
  by (simp add: fun_eq_iff annotated_methods_def own_methods_app has_RouteMetadata_app)

lemma spec_route_app: "spec_route c (w\<lparr>app := a\<rparr>) = spec_route c w"
  by (simp add: fun_eq_iff spec_route_def method_value_def)

lemma spec_mount_app: "spec_mount c (w\<lparr>app := a\<rparr>) inst = spec_mount c w inst"
  by (simp add: spec_mount_def spec_route_app annotated_methods_app)

lemma valid_method_app: "valid_method c (w\<lparr>app := a\<rparr>) = valid_method c w"
  by (simp add: fun_eq_iff valid_method_def has_RouteMetadata_app)

lemma validly_annotated_app: "validly_annotated c (w\<lparr>app := a\<rparr>) inst = validly_annotated c w inst"
  by (simp add: validly_annotated_def valid_method_app own_methods_app)

lemma resolve_controller_instance_of:
  "resolve_controller c x = Inr inst \<Longrightarrow> instance_of c x = inst"
  by (simp add: instance_of_def)

lemma useControllers_from_Returned:
  "useControllers_from c i cs w = (Returned, w') \<Longrightarrow>
     w' = w\<lparr>app := app w @ map (\<lambda>x. spec_mount c w (instance_of c x)) cs\<rparr> \<and>
     list_all (\<lambda>x. \<exists>inst. resolve_controller c x = Inr inst \<and> validly_annotated c w inst) cs"
proof (induction cs arbitrary: i w)
  case Nil
  then show ?case by simp
next
  case (Cons x xs)
  show ?case
  proof (cases "bind_controller c w i x")
    case (Inl e)
    with Cons.prems show ?thesis by simp
  next
    case (Inr l)
    then obtain inst where inst: "resolve_controller c x = Inr inst" "validly_annotated c w inst"
        "l = spec_mount c w inst"
      using bind_controller_Inr_iff [of c w i x l] by blast
    from Cons.prems Inr
    have "useControllers_from c (Suc i) xs (w\<lparr>app := app w @ [l]\<rparr>) = (Returned, w')" by simp
    from Cons.IH [OF this] inst show ?thesis
      by (simp add: spec_mount_app validly_annotated_app resolve_controller_instance_of)
  qed
qed

lemma useControllers_from_valid:
  "list_all (\<lambda>x. \<exists>inst. resolve_controller c x = Inr inst \<and> validly_annotated c w inst) cs \<Longrightarrow>
     fst (useControllers_from c i cs w) = Returned"
proof (induction cs arbitrary: i w)
  case Nil
  show ?case by simp
next
  case (Cons x xs)
  then obtain inst where inst: "resolve_controller c x = Inr inst" "validly_annotated c w inst"
    by auto
  then have b: "bind_controller c w i x = Inr (spec_mount c w inst)"
    using bind_controller_Inr_iff [of c w i x "spec_mount c w inst"] by blast
  have "list_all (\<lambda>x. \<exists>y. resolve_controller c x = Inr y \<and>
           validly_annotated c (w\<lparr>app := app w @ [spec_mount c w inst]\<rparr>) y) xs"
    using Cons.prems by (simp add: validly_annotated_app)
  from Cons.IH [where w = "w\<lparr>app := app w @ [spec_mount c w inst]\<rparr>" and i = "Suc i", OF this] b
  show ?case by simp
qed

lemma useControllers_from_reads:
  "bind_controller c (snd (useControllers_from c i cs w)) j x = bind_controller c w j x"
  by (subst useControllers_from_normal) (simp add: bind_controller_app)

lemma useControllers_from_stops:
  assumes "k < length cs" and "bind_controller c w (i + k) (cs ! k) = Inl e"
  shows "useControllers_from c i cs w =
     (case useControllers_from c i (take k cs) w of
        (Returned, w1) \<Rightarrow> (Threw e, w1)
      | (Threw e', w1) \<Rightarrow> (Threw e', w1))"
proof -
  have cs: "cs = take k cs @ cs ! k # drop (Suc k) cs"
    using assms(1) by (simp add: id_take_nth_drop)
  have len: "length (take k cs) = k" using assms(1) by simp
  obtain r w1 where p: "useControllers_from c i (take k cs) w = (r, w1)"
    by (cases "useControllers_from c i (take k cs) w")
  have w1: "bind_controller c w1 (i + k) (cs ! k) = bind_controller c w (i + k) (cs ! k)"
    using useControllers_from_reads [of c i "take k cs" w "i + k" "cs ! k"] p by simp
  have "useControllers_from c i (take k cs @ cs ! k # drop (Suc k) cs) w =
     (case useControllers_from c i (take k cs) w of
        (Returned, w1) \<Rightarrow> (Threw e, w1)
      | (Threw e', w1) \<Rightarrow> (Threw e', w1))"
    unfolding useControllers_from_append len using p w1 assms(2)
    by (cases r) simp_all
  with cs show ?thesis by simp
qed

lemma useControllers_from_throws:
  assumes "k < length cs" and "bind_controller c w (i + k) (cs ! k) = Inl e"
  shows "\<exists>e'. fst (useControllers_from c i cs w) = Threw e'"
  using useControllers_from_stops [OF assms]
  by (auto split: prod.splits outcome.splits)

subsection \<open>Single steps\<close>

lemma bind_controller_invalid_metadata:
  assumes "resolve_controller c x = Inr inst" and "isObject inst"
    and "\<not> isControllerMetadata (getMetadata w ''malmajs:controller'' inst None)"
  shows "bind_controller c w i x = Inl (InvalidControllerMetadata i)"
  using assms by (simp add: bind_controller_def)

lemma layer_result_spec_mount:
  "name \<in> set (annotated_methods w inst) \<Longrightarrow>
   (verb (spec_route c w inst name),
    mount_path (spec_mount c w inst) @ route_path (spec_route c w inst name),
    mount_handlers (spec_mount c w inst) @ chain (spec_route c w inst name))
     \<in> set (layer_result (spec_mount c w inst))"
  by (auto simp: spec_mount_def)

lemma binding_result_member:
  "l \<in> set ls \<Longrightarrow> t \<in> set (layer_result l) \<Longrightarrow> t \<in> set (binding_result ls)"
  by (auto simp: binding_result_def)

lemma transformMiddleware_function_unchanged:
  "typeof m = ''function'' \<Longrightarrow> \<not> isConstructor m \<Longrightarrow> transformMiddleware c m = Inr m"
  by (simp add: transformMiddleware_def)

lemma transformMiddleware_capability_bound:
  "typeof m \<noteq> ''function'' \<Longrightarrow> typeof (get_property m ''handle'') = ''function'' \<Longrightarrow>
     transformMiddleware c m = Inr (JBound (get_property m ''handle'') m)"
  by (cases m) (simp_all add: transformMiddleware_def bind_handle_def)

lemma transformMiddlewares_append:
  "transformMiddlewares c (xs @ ys) =
     (case transformMiddlewares c xs of
        Inl e \<Rightarrow> Inl e
      | Inr hs \<Rightarrow> (case transformMiddlewares c ys of Inl e \<Rightarrow> Inl e | Inr hs' \<Rightarrow> Inr (hs @ hs')))"
  by (induction xs) (simp_all split: sum.splits)

lemma bind_properties_append:
  "bind_properties c w i inst proto (xs @ ys) rs =
     (case bind_properties c w i inst proto xs rs of
        Inl e \<Rightarrow> Inl e
      | Inr rs' \<Rightarrow> bind_properties c w i inst proto ys rs')"
  by (induction xs arbitrary: rs) (simp_all split: sum.splits option.splits)

lemma resolve_controller_Some:
  "resolve_controller (Some get) x = Inr (instance_of (Some get) x)"
  by (simp add: instance_of_def resolve_controller_def)

lemma not_validly_annotated_throws:
  assumes "k < length cs" and "resolve_controller c (cs ! k) = Inr inst"
    and "\<not> validly_annotated c w inst"
  shows "\<exists>e. fst (useControllers c cs w) = Threw e"
proof -
  from assms(2,3) have "\<not> (\<exists>l. bind_controller c w (0 + k) (cs ! k) = Inr l)"
    using bind_controller_Inr_iff [of c w k "cs ! k"] by auto
  then obtain e where "bind_controller c w (0 + k) (cs ! k) = Inl e"
    by (cases "bind_controller c w (0 + k) (cs ! k)") auto
  with assms(1) show ?thesis
    using useControllers_from_throws [of k cs c w 0 e] by (simp add: useControllers_def)
qed

section \<open>The claims\<close>

text \<open>
  C1. After a binding that returned, for a controller instance with base path \<open>B\<close>
  and mount middleware \<open>M\<close>, and an annotated method \<open>f\<close> of it with verb \<open>V\<close>,
  path \<open>P\<close> and route middleware \<open>R\<close>: the binding result holds the tuple
  (\<open>V\<close>, \<open>B + P\<close>, chain) whose chain is the handlers of \<open>M\<close>, then the handlers
  of \<open>R\<close>, then the method bound to the instance. For mount middleware [A, B] and
  method middleware [C] the chain is [A, B, C, handler].
\<close>

theorem route_registered_with_full_chain:
  assumes "useControllers c cs w = (Returned, w')"
    and "k < length cs" and "resolve_controller c (cs ! k) = Inr inst"
    and "get_property (getMetadata w ''malmajs:controller'' inst None) ''path'' = JString B"
    and "get_property (getMetadata w ''malmajs:controller'' inst None) ''middlewares'' = JArray M"
    and "name \<in> set (annotated_methods w inst)"
    and "getOwnPropertyDescriptor w (getPrototypeOf w inst) name = Some (Descriptor f)"
    and "get_property (getMetadata w ''malmajs:handler'' inst (Some name)) ''method'' = JString V"
    and "get_property (getMetadata w ''malmajs:handler'' inst (Some name)) ''path'' = JString P"
    and "get_property (getMetadata w ''malmajs:handler'' inst (Some name)) ''middlewares'' = JArray R"
  shows "\<exists>ms rs. transformMiddlewares c M = Inr ms \<and> transformMiddlewares c R = Inr rs \<and>
     (V, B @ P, ms @ rs @ [JBound f inst])
       \<in> set (binding_result (drop (length (app w)) (app w')))"
proof -
  from assms(1)
  have w': "w' = w\<lparr>app := app w @ map (\<lambda>x. spec_mount c w (instance_of c x)) cs\<rparr>"
    and all: "list_all (\<lambda>x. \<exists>inst. resolve_controller c x = Inr inst \<and> validly_annotated c w inst) cs"
    using useControllers_from_Returned [of c 0 cs w w'] by (simp_all add: useControllers_def)
  from all assms(2,3) have valid: "validly_annotated c w inst"
    by (auto simp: list_all_length)
  from valid assms(5) have M: "transformMiddlewares c M = Inr (handlers_of c M)"
    by (simp add: validly_annotated_def transformMiddlewares_resolvable)
  from assms(6) have own: "name \<in> set (own_methods w inst)"
    by (simp add: annotated_methods_def)
  with valid have "valid_method c w inst name"
    by (auto simp: validly_annotated_def list_all_iff)
  with assms(10) have R: "transformMiddlewares c R = Inr (handlers_of c R)"
    by (simp add: valid_method_def transformMiddlewares_resolvable)
  have inst: "instance_of c (cs ! k) = inst"
    using assms(3) by (rule resolve_controller_instance_of)
  have l: "spec_mount c w inst \<in> set (drop (length (app w)) (app w'))"
    using w' assms(2) inst by (auto simp: in_set_conv_nth intro!: exI [of _ k])
  have t: "(V, B @ P, handlers_of c M @ handlers_of c R @ [JBound f inst])
      \<in> set (layer_result (spec_mount c w inst))"
    using layer_result_spec_mount [OF assms(6), of c] assms(4,5,7,8,9,10)
    by (simp add: spec_mount_def spec_route_def method_value_def)
  from binding_result_member [OF l t] M R show ?thesis by blast
qed

theorem route_registered_with_full_chain_witness:
  "(''get'', ''/users/list'', [mwA, mwB, mwC, JBound list_method userController])
     \<in> set (binding_result (app (snd (useControllers None [userController] demo_world))))"
proof -
  let ?l = "Mounted ''/users'' [mwA, mwB]
      [Route ''get'' ''/list'' [mwC, JBound list_method userController],
       Route ''post'' ''/create'' [JBound create_method userController]]"
  have 1: "useControllers None [userController] demo_world = (Returned, demo_world\<lparr>app := [?l]\<rparr>)"
    by (simp add: binder_defs demo_defs)
  have 2: "resolve_controller None ([userController] ! 0) = Inr userController"
    by (simp add: resolve_controller_def userController_def)
  have 3: "get_property (getMetadata demo_world ''malmajs:controller'' userController None) ''path''
      = JString ''/users''"
    "get_property (getMetadata demo_world ''malmajs:controller'' userController None) ''middlewares''
      = JArray [mwA, mwB]"
    by (simp_all add: demo_world_def demo_getMetadata_def ControllerMetadata_def)
  have 4: "''list'' \<in> set (annotated_methods demo_world userController)"
    by (simp add: annotated_methods_def own_methods_def is_own_method_def has_RouteMetadata_def
        isHandlerMetadata_def HandlerMetadata_def middleware_shape_def demo_defs)
  have 5: "getOwnPropertyDescriptor demo_world (getPrototypeOf demo_world userController) ''list''
      = Some (Descriptor list_method)"
    by (simp add: demo_defs)
  have 6: "get_property (getMetadata demo_world ''malmajs:handler'' userController (Some ''list'')) ''method''
      = JString ''get''"
    "get_property (getMetadata demo_world ''malmajs:handler'' userController (Some ''list'')) ''path''
      = JString ''/list''"
    "get_property (getMetadata demo_world ''malmajs:handler'' userController (Some ''list'')) ''middlewares''
      = JArray [mwC]"
    by (simp_all add: demo_world_def demo_getMetadata_def HandlerMetadata_def)
  have 7: "transformMiddlewares None [mwA, mwB] = Inr [mwA, mwB]"
    "transformMiddlewares None [mwC] = Inr [mwC]"
    by (simp_all add: transformMiddleware_def mwA_def mwB_def mwC_def)
  from route_registered_with_full_chain [OF 1 _ 2 3 4 5 6]
  have "(''get'', ''/users'' @ ''/list'', [mwA, mwB] @ [mwC] @ [JBound list_method userController])
      \<in> set (binding_result (drop (length (app demo_world)) (app (demo_world\<lparr>app := [?l]\<rparr>))))"
    using 7 by auto
  then show ?thesis using 1 by (simp add: demo_world_def)
qed

text \<open>
  C2. A binding that returned has pushed exactly one mount per controller, in the
  order of the controllers passed in; the mount of a controller with N annotated
  methods holds exactly N routes, one per annotated method, in the order in which
  \<^verbatim>\<open>Object.getOwnPropertyNames\<close> lists the methods (their declaration order).
\<close>

theorem registrations_counted_and_ordered:
  assumes "useControllers c cs w = (Returned, w')"
  shows "app w' = app w @ map (\<lambda>x. spec_mount c w (instance_of c x)) cs \<and>
     length (app w') = length (app w) + length cs \<and>
     (\<forall>k<length cs.
        (\<exists>B M. app w' ! (length (app w) + k) =
           Mounted B M (map (spec_route c w (instance_of c (cs ! k)))
                          (annotated_methods w (instance_of c (cs ! k))))) \<and>
        length (mount_router (app w' ! (length (app w) + k))) =
          length (annotated_methods w (instance_of c (cs ! k))) \<and>
        annotated_methods w (instance_of c (cs ! k)) = own_methods w (instance_of c (cs ! k)))"
proof -
  from assms
  have w': "w' = w\<lparr>app := app w @ map (\<lambda>x. spec_mount c w (instance_of c x)) cs\<rparr>"
    and all: "list_all (\<lambda>x. \<exists>inst. resolve_controller c x = Inr inst \<and> validly_annotated c w inst) cs"
    using useControllers_from_Returned [of c 0 cs w w'] by (simp_all add: useControllers_def)
  have "annotated_methods w (instance_of c (cs ! k)) = own_methods w (instance_of c (cs ! k))"
    if "k < length cs" for k
  proof -
    from all that obtain inst where "resolve_controller c (cs ! k) = Inr inst"
      "validly_annotated c w inst"
      by (auto simp: list_all_length)
    then show ?thesis
      using annotated_methods_valid [of c w inst]
      by (simp add: resolve_controller_instance_of validly_annotated_def)
  qed
  with w' show ?thesis
    by (simp add: nth_append spec_mount_def)
qed

theorem registrations_counted_and_ordered_witness:
  "app (snd (useControllers (Some demo_container) [UserController, userController] demo_world)) =
     [Mounted ''/users'' [mwA, mwB]
        [Route ''get'' ''/list'' [mwC, JBound list_method userController],
         Route ''post'' ''/create'' [JBound create_method userController]],
      Mounted ''/users'' [mwA, mwB]
        [Route ''get'' ''/list'' [mwC, JBound list_method userController],
         Route ''post'' ''/create'' [JBound create_method userController]]] \<and>
   annotated_methods demo_world userController = [''list'', ''create'']"
proof -
  let ?l = "Mounted ''/users'' [mwA, mwB]
      [Route ''get'' ''/list'' [mwC, JBound list_method userController],
       Route ''post'' ''/create'' [JBound create_method userController]]"
  have 1: "useControllers (Some demo_container) [UserController, userController] demo_world =
      (Returned, demo_world\<lparr>app := [?l, ?l]\<rparr>)"
    by (simp add: binder_defs demo_defs)
  have 2: "instance_of (Some demo_container) UserController = userController"
    "instance_of (Some demo_container) userController = userController"
    by (simp_all add: instance_of_def resolve_controller_def demo_defs)
  have all: "\<forall>k<length [UserController, userController].
        (\<exists>B M. app (demo_world\<lparr>app := [?l, ?l]\<rparr>) ! (length (app demo_world) + k) =
           Mounted B M (map (spec_route (Some demo_container) demo_world
                (instance_of (Some demo_container) ([UserController, userController] ! k)))
              (annotated_methods demo_world
                (instance_of (Some demo_container) ([UserController, userController] ! k))))) \<and>
        length (mount_router (app (demo_world\<lparr>app := [?l, ?l]\<rparr>) ! (length (app demo_world) + k))) =
          length (annotated_methods demo_world
            (instance_of (Some demo_container) ([UserController, userController] ! k))) \<and>
        annotated_methods demo_world
            (instance_of (Some demo_container) ([UserController, userController] ! k)) =
          own_methods demo_world
            (instance_of (Some demo_container) ([UserController, userController] ! k))"
    using registrations_counted_and_ordered [OF 1] by (elim conjE)
  from all [rule_format, of 0]
  have "annotated_methods demo_world userController = own_methods demo_world userController"
    by (simp add: 2)
  then have "annotated_methods demo_world userController = [''list'', ''create'']"
    by (simp add: own_methods_def is_own_method_def demo_defs)
  with 1 show ?thesis by simp
qed

text \<open>
  C3. As stated (an own method without RouteMetadata is silently skipped) the claim
  fails: \<^verbatim>\<open>JobController\<close> has the undecorated method \<^verbatim>\<open>helper\<close>, and
  binding it throws \<^verbatim>\<open>Method 'helper' in controller at index '0' has invalid
  metadata.\<close> and registers nothing.
\<close>

theorem unannotated_method_not_skipped:
  "''helper'' \<in> set (own_methods demo_world jobController) \<and>
   getMetadata demo_world ''malmajs:handler'' jobController (Some ''helper'') = JUndefined \<and>
   useControllers None [jobController] demo_world =
     (Threw (InvalidHandlerMetadata ''helper'' 0), demo_world)"
  by (simp add: binder_defs own_methods_def is_own_method_def demo_defs)

text \<open>
  C3, amended. An own method (constructor excluded) that carries no well-shaped
  RouteMetadata is not skipped. When the binder reaches it, that is, when the
  controllers before index \<open>k\<close> bind, the controller at \<open>k\<close> is an object with a
  well-shaped controller record and an object prototype, and the own methods
  before it are validly annotated, \<open>useControllers\<close> throws
  \<^verbatim>\<open>Method 'name' in controller at index 'k' has invalid metadata.\<close>, and neither
  a route nor the mount of controller \<open>k\<close> is registered.
\<close>

theorem unannotated_method_throws:
  assumes "k < length cs"
    and "useControllers c (take k cs) w = (Returned, w1)"
    and "resolve_controller c (cs ! k) = Inr inst" and "isObject inst"
    and "isControllerMetadata (getMetadata w ''malmajs:controller'' inst None)"
    and "isObject (getPrototypeOf w inst)"
    and "name \<in> set (own_methods w inst)"
    and "\<not> has_RouteMetadata w inst name"
    and "list_all (valid_method c w inst) (takeWhile (\<lambda>n. n \<noteq> name) (own_methods w inst))"
  shows "useControllers c cs w = (Threw (InvalidHandlerMetadata name k), w1) \<and>
     length (app w1) = length (app w) + k"
proof -
  let ?proto = "getPrototypeOf w inst"
  let ?pre = "takeWhile (\<lambda>n. n \<noteq> name) (own_methods w inst)"
  let ?post = "dropWhile (\<lambda>n. n \<noteq> name) (own_methods w inst)"
  from assms(7) obtain rest where post: "?post = name # rest"
    by (cases ?post) (auto simp: dropWhile_eq_Cons_conv dest: hd_dropWhile)
  have split: "own_methods w inst = ?pre @ name # rest"
    using post takeWhile_dropWhile_id [of "\<lambda>n. n \<noteq> name" "own_methods w inst"] by simp
  have own: "is_own_method w ?proto name"
    using assms(7) by (simp add: own_methods_def)
  have pre_own: "filter (is_own_method w ?proto) ?pre = ?pre"
    by (rule filter_True) (auto simp: own_methods_def dest: set_takeWhileD)
  have pre: "bind_properties c w k inst ?proto ?pre [] = Inr (map (spec_route c w inst) ?pre)"
    using bind_properties_valid [of c w inst ?pre k "[]"] assms(9) by (simp add: pre_own)
  have here: "bind_property c w k inst ?proto name = Inl (InvalidHandlerMetadata name k)"
    using bind_property_cases [of c w k inst name] own assms(8) by simp
  have "bind_properties c w k inst ?proto (getOwnPropertyNames w ?proto) [] =
      bind_properties c w k inst ?proto (?pre @ name # rest) []"
    using bind_properties_filter [of c w k inst ?proto "getOwnPropertyNames w ?proto" "[]"] split
    by (simp add: own_methods_def)
  also have "\<dots> = Inl (InvalidHandlerMetadata name k)"
    by (simp add: bind_properties_append pre here)
  finally have "bind_controller c w (0 + k) (cs ! k) = Inl (InvalidHandlerMetadata name k)"
    using assms(3-6) by (simp add: bind_controller_def)
  from useControllers_from_stops [OF assms(1) this] assms(2)
  have 1: "useControllers c cs w = (Threw (InvalidHandlerMetadata name k), w1)"
    by (simp add: useControllers_def)
  have 2: "length (app w1) = length (app w) + k"
    using useControllers_from_length [of c 0 "take k cs" w] assms(1,2)
    by (simp add: useControllers_def)
  from 1 2 show ?thesis by simp
qed

theorem unannotated_method_throws_witness:
  "useControllers None [userController, jobController] demo_world =
     (Threw (InvalidHandlerMetadata ''helper'' 1),
      demo_world\<lparr>app := [Mounted ''/users'' [mwA, mwB]
        [Route ''get'' ''/list'' [mwC, JBound list_method userController],
         Route ''post'' ''/create'' [JBound create_method userController]]]\<rparr>)"
proof -
  let ?l = "Mounted ''/users'' [mwA, mwB]
      [Route ''get'' ''/list'' [mwC, JBound list_method userController],
       Route ''post'' ''/create'' [JBound create_method userController]]"
  have p: "useControllers None (take 1 [userController, jobController]) demo_world =
      (Returned, demo_world\<lparr>app := [?l]\<rparr>)"
    by (simp add: binder_defs demo_defs)
  have r: "resolve_controller None ([userController, jobController] ! 1) = Inr jobController"
    by (simp add: resolve_controller_def jobController_def)
  have o: "isObject jobController" by (simp add: jobController_def)
  have m: "isControllerMetadata (getMetadata demo_world ''malmajs:controller'' jobController None)"
    by (simp add: isControllerMetadata_def ControllerMetadata_def demo_defs)
  have q: "isObject (getPrototypeOf demo_world jobController)"
    by (simp add: demo_defs)
  have own: "own_methods demo_world jobController = [''index'', ''helper'']"
    by (simp add: own_methods_def is_own_method_def demo_defs)
  have n: "''helper'' \<in> set (own_methods demo_world jobController)"
    by (simp add: own)
  have h: "\<not> has_RouteMetadata demo_world jobController ''helper''"
    by (simp add: has_RouteMetadata_def isHandlerMetadata_def demo_defs)
  have v: "list_all (valid_method None demo_world jobController)
      (takeWhile (\<lambda>n. n \<noteq> ''helper'') (own_methods demo_world jobController))"
    unfolding own
    by (simp add: valid_method_def has_RouteMetadata_def isHandlerMetadata_def
        HandlerMetadata_def isHandlerMethod_def demo_defs)
  from unannotated_method_throws [OF _ p r o m q n h v] show ?thesis by simp
qed

text \<open>
  C4. The binder is asymmetric over the own properties of a controller's prototype.
  A property other than \<^verbatim>\<open>constructor\<close> whose value is not a function is skipped:
  no error, no route, and the loop goes on as if the name were not there; in all,
  the routes depend on the own methods only. An own method without a well-shaped
  handler record makes the loop body throw
  \<^verbatim>\<open>Method 'name' in controller at index 'i' has invalid metadata.\<close>, and a
  collection that holds a controller with such a method makes \<open>useControllers\<close>
  throw.
\<close>

theorem binder_asymmetry:
  "(name \<noteq> ''constructor'' \<and>
    (case getOwnPropertyDescriptor w proto name of
       None \<Rightarrow> True
     | Some d \<Rightarrow> typeof (desc_value d) \<noteq> ''function'') \<longrightarrow>
      bind_property c w i inst proto name = Inr None \<and>
      bind_properties c w i inst proto (name # names) rs =
        bind_properties c w i inst proto names rs) \<and>
   (name \<noteq> ''constructor'' \<and>
    getOwnPropertyDescriptor w proto name = Some d \<and> typeof (desc_value d) = ''function'' \<and>
    \<not> isHandlerMetadata (getMetadata w ''malmajs:handler'' inst (Some name)) \<longrightarrow>
      bind_property c w i inst proto name = Inl (InvalidHandlerMetadata name i) \<and>
      bind_properties c w i inst proto (name # names) rs = Inl (InvalidHandlerMetadata name i)) \<and>
   (k < length cs \<and> resolve_controller c (cs ! k) = Inr inst \<and>
    name \<in> set (own_methods w inst) \<and> \<not> has_RouteMetadata w inst name \<longrightarrow>
      (\<exists>e. fst (useControllers c cs w) = Threw e)) \<and>
   bind_properties c w i inst proto names rs =
     bind_properties c w i inst proto (filter (is_own_method w proto) names) rs"
proof (intro conjI impI)
  assume "name \<noteq> ''constructor'' \<and>
    (case getOwnPropertyDescriptor w proto name of
       None \<Rightarrow> True
     | Some d \<Rightarrow> typeof (desc_value d) \<noteq> ''function'')"
  then show a: "bind_property c w i inst proto name = Inr None"
    by (auto simp: bind_property_def split: option.splits)
  then show "bind_properties c w i inst proto (name # names) rs =
        bind_properties c w i inst proto names rs"
    by simp
next
  assume "name \<noteq> ''constructor'' \<and>
    getOwnPropertyDescriptor w proto name = Some d \<and> typeof (desc_value d) = ''function'' \<and>
    \<not> isHandlerMetadata (getMetadata w ''malmajs:handler'' inst (Some name))"
  then show a: "bind_property c w i inst proto name = Inl (InvalidHandlerMetadata name i)"
    by (simp add: bind_property_def)
  then show "bind_properties c w i inst proto (name # names) rs = Inl (InvalidHandlerMetadata name i)"
    by simp
next
  assume a: "k < length cs \<and> resolve_controller c (cs ! k) = Inr inst \<and>
    name \<in> set (own_methods w inst) \<and> \<not> has_RouteMetadata w inst name"
  then have "\<not> list_all (valid_method c w inst) (own_methods w inst)"
    by (auto simp: list_all_iff valid_method_def)
  then have "\<not> validly_annotated c w inst"
    by (simp add: validly_annotated_def)
  with a have "\<not> (\<exists>l. bind_controller c w (0 + k) (cs ! k) = Inr l)"
    using bind_controller_Inr_iff [of c w k "cs ! k"] by auto
  then obtain e where "bind_controller c w (0 + k) (cs ! k) = Inl e"
    by (cases "bind_controller c w (0 + k) (cs ! k)") auto
  with a show "\<exists>e. fst (useControllers c cs w) = Threw e"
    using useControllers_from_throws [of k cs c w 0 e] by (simp add: useControllers_def)
next
  show "bind_properties c w i inst proto names rs =
     bind_properties c w i inst proto (filter (is_own_method w proto) names) rs"
    by (rule bind_properties_filter)
qed

theorem binder_asymmetry_witness:
  "bind_property None demo_world 0 userController userPrototype ''version'' = Inr None \<and>
   bind_properties None demo_world 0 userController userPrototype [''version''] [] = Inr [] \<and>
   bind_property None demo_world 1 jobController jobPrototype ''helper'' =
     Inl (InvalidHandlerMetadata ''helper'' 1) \<and>
   (\<exists>e. fst (useControllers None [userController, jobController] demo_world) = Threw e)"
proof -
  have 1: "''version'' \<noteq> ''constructor'' \<and>
    (case getOwnPropertyDescriptor demo_world userPrototype ''version'' of
       None \<Rightarrow> True
     | Some d \<Rightarrow> typeof (desc_value d) \<noteq> ''function'')"
    by (simp add: demo_defs)
  have 2: "''helper'' \<noteq> ''constructor'' \<and>
    getOwnPropertyDescriptor demo_world jobPrototype ''helper'' = Some (Descriptor helper_method) \<and>
    typeof (desc_value (Descriptor helper_method)) = ''function'' \<and>
    \<not> isHandlerMetadata (getMetadata demo_world ''malmajs:handler'' jobController (Some ''helper''))"
    by (simp add: isHandlerMetadata_def demo_defs)
  have 3: "1 < length [userController, jobController] \<and>
    resolve_controller None ([userController, jobController] ! 1) = Inr jobController \<and>
    ''helper'' \<in> set (own_methods demo_world jobController) \<and>
    \<not> has_RouteMetadata demo_world jobController ''helper''"
    by (simp add: resolve_controller_def own_methods_def is_own_method_def has_RouteMetadata_def
        isHandlerMetadata_def demo_defs)
  from binder_asymmetry [where name = "''version''" and w = demo_world and proto = userPrototype
      and c = None and i = 0 and inst = userController and names = "[]" and rs = "[]"] 1
  have a: "bind_property None demo_world 0 userController userPrototype ''version'' = Inr None"
    "bind_properties None demo_world 0 userController userPrototype [''version''] [] = Inr []"
    by simp_all
  from binder_asymmetry [where name = "''helper''" and w = demo_world and proto = jobPrototype
      and d = "Descriptor helper_method" and inst = jobController and c = None and i = 1
      and names = "[]" and rs = "[]" and k = 1 and cs = "[userController, jobController]"] 2 3
  have b: "bind_property None demo_world 1 jobController jobPrototype ''helper'' =
     Inl (InvalidHandlerMetadata ''helper'' 1)"
    "\<exists>e. fst (useControllers None [userController, jobController] demo_world) = Threw e"
    by blast+
  from a b show ?thesis by blast
qed

text \<open>
  C5. A controller that resolves to an object without a well-shaped controller record
  is never skipped, whatever its position \<open>k\<close> in the collection: binding throws,
  and it stops at that controller with the error
  \<^verbatim>\<open>Controller at index 'k' has invalid metadata.\<close> (a MissingMetadata error)
  unless an earlier controller has already stopped it. Nothing of controller \<open>k\<close>
  or of a later one is registered.
\<close>

theorem invalid_controller_fails_fast:
  assumes "k < length cs"
    and "resolve_controller c (cs ! k) = Inr inst" and "isObject inst"
    and "\<not> isControllerMetadata (getMetadata w ''malmajs:controller'' inst None)"
  shows "(\<exists>e. fst (useControllers c cs w) = Threw e) \<and>
     useControllers c cs w =
       (case useControllers c (take k cs) w of
          (Returned, w1) \<Rightarrow> (Threw (InvalidControllerMetadata k), w1)
        | (Threw e, w1) \<Rightarrow> (Threw e, w1)) \<and>
     MissingMetadata (InvalidControllerMetadata k)"
proof -
  have b: "bind_controller c w (0 + k) (cs ! k) = Inl (InvalidControllerMetadata k)"
    using assms(2-4) by (simp add: bind_controller_invalid_metadata)
  show ?thesis
    unfolding useControllers_def
    using useControllers_from_stops [OF assms(1) b] useControllers_from_throws [OF assms(1) b]
    by simp
qed

theorem invalid_controller_fails_fast_witness:
  "useControllers None [userController, plainController, jobController] demo_world =
     (Threw (InvalidControllerMetadata 1),
      snd (useControllers None [userController] demo_world)) \<and>
   fst (useControllers None [plainController, userController] demo_world) =
     Threw (InvalidControllerMetadata 0)"
proof -
  have r: "resolve_controller None plainController = Inr plainController"
    by (simp add: resolve_controller_def plainController_def)
  have o: "isObject plainController" by (simp add: plainController_def)
  have m: "\<not> isControllerMetadata (getMetadata demo_world ''malmajs:controller'' plainController None)"
    by (simp add: isControllerMetadata_def demo_defs)
  have p: "fst (useControllers None [userController] demo_world) = Returned"
    by (simp add: binder_defs demo_defs)
  have q: "useControllers None [] demo_world = (Returned, demo_world)"
    by (simp add: useControllers_def)
  from invalid_controller_fails_fast
    [of 1 "[userController, plainController, jobController]" None plainController demo_world]
    r o m p
  have 1: "useControllers None [userController, plainController, jobController] demo_world =
     (Threw (InvalidControllerMetadata 1), snd (useControllers None [userController] demo_world))"
    by (simp split: prod.splits outcome.splits)
  from invalid_controller_fails_fast
    [of 0 "[plainController, userController]" None plainController demo_world]
    r o m q
  have 2: "fst (useControllers None [plainController, userController] demo_world) =
     Threw (InvalidControllerMetadata 0)"
    by simp
  from 1 2 show ?thesis by simp
qed

text \<open>
  C6. Without a container, a controller given as a class (anything that is not an
  object) stops the binding with
  \<^verbatim>\<open>Add container to use controller without instantiate.\<close>, unless an earlier
  controller has already stopped it; a middleware given as a class makes
  \<open>transformMiddlewares\<close> throw
  \<^verbatim>\<open>Add container to use middleware without instantiate.\<close>, unless an earlier
  element of the list has already thrown, and makes the binding of a controller
  that lists it throw. Both errors are MissingResolver errors. With a container, a
  middleware class whose instance has a function \<^verbatim>\<open>handle\<close> resolves to that
  function bound to the instance; a controller class whose instance is validly
  annotated binds; and a collection of validly annotated controllers binds as a
  whole.
\<close>

theorem class_reference_needs_resolver:
  "(k < length cs \<and> typeof (cs ! k) \<noteq> ''object'' \<longrightarrow>
      (\<exists>e. fst (useControllers None cs w) = Threw e) \<and>
      useControllers None cs w =
        (case useControllers None (take k cs) w of
           (Returned, w1) \<Rightarrow> (Threw NoContainerForController, w1)
         | (Threw e, w1) \<Rightarrow> (Threw e, w1))) \<and>
   (isConstructor m \<longrightarrow>
      transformMiddleware None m = Inl NoContainerForMiddleware \<and>
      transformMiddlewares None (pre @ m # post) =
        (case transformMiddlewares None pre of
           Inl e \<Rightarrow> Inl e
         | Inr hs \<Rightarrow> Inl NoContainerForMiddleware)) \<and>
   (k < length cs \<and> resolve_controller None (cs ! k) = Inr inst \<and> isConstructor m \<and>
    (m \<in> set (elements (get_property (getMetadata w ''malmajs:controller'' inst None)
                 ''middlewares'')) \<or>
     (\<exists>n \<in> set (own_methods w inst).
        m \<in> set (elements (get_property (getMetadata w ''malmajs:handler'' inst (Some n))
                    ''middlewares'')))) \<longrightarrow>
      (\<exists>e. fst (useControllers None cs w) = Threw e)) \<and>
   MissingResolver NoContainerForController \<and> MissingResolver NoContainerForMiddleware \<and>
   (isConstructor m \<and> typeof (get_property (get m) ''handle'') = ''function'' \<longrightarrow>
      transformMiddleware (Some get) m =
        Inr (JBound (get_property (get m) ''handle'') (get m))) \<and>
   (typeof x \<noteq> ''object'' \<and> validly_annotated (Some get) w (get x) \<longrightarrow>
      bind_controller (Some get) w i x = Inr (spec_mount (Some get) w (get x))) \<and>
   (list_all (\<lambda>x. validly_annotated (Some get) w (instance_of (Some get) x)) cs \<longrightarrow>
      useControllers (Some get) cs w =
        (Returned,
         w\<lparr>app := app w @ map (\<lambda>x. spec_mount (Some get) w (instance_of (Some get) x)) cs\<rparr>))"
proof (intro conjI impI)
  assume a: "k < length cs \<and> typeof (cs ! k) \<noteq> ''object''"
  then have b: "bind_controller None w (0 + k) (cs ! k) = Inl NoContainerForController"
    by (simp add: bind_controller_def resolve_controller_def)
  from a have k: "k < length cs" by simp
  show "\<exists>e. fst (useControllers None cs w) = Threw e"
    using useControllers_from_throws [OF k b] by (simp add: useControllers_def)
  show "useControllers None cs w =
        (case useControllers None (take k cs) w of
           (Returned, w1) \<Rightarrow> (Threw NoContainerForController, w1)
         | (Threw e, w1) \<Rightarrow> (Threw e, w1))"
    using useControllers_from_stops [OF k b] by (simp add: useControllers_def)
next
  assume a: "isConstructor m"
  then show b: "transformMiddleware None m = Inl NoContainerForMiddleware"
    by (simp add: transformMiddleware_def)
  then show "transformMiddlewares None (pre @ m # post) =
        (case transformMiddlewares None pre of
           Inl e \<Rightarrow> Inl e
         | Inr hs \<Rightarrow> Inl NoContainerForMiddleware)"
    by (simp add: transformMiddlewares_append split: sum.splits)
next
  assume a: "k < length cs \<and> resolve_controller None (cs ! k) = Inr inst \<and> isConstructor m \<and>
    (m \<in> set (elements (get_property (getMetadata w ''malmajs:controller'' inst None)
                 ''middlewares'')) \<or>
     (\<exists>n \<in> set (own_methods w inst).
        m \<in> set (elements (get_property (getMetadata w ''malmajs:handler'' inst (Some n))
                    ''middlewares''))))"
  then have "\<not> resolvable None m" by (simp add: resolvable_def)
  with a have "\<not> validly_annotated None w inst"
    by (auto simp: validly_annotated_def valid_method_def list_all_iff)
  with a show "\<exists>e. fst (useControllers None cs w) = Threw e"
    using not_validly_annotated_throws [of k cs None inst w] by simp
next
  show "MissingResolver NoContainerForController" "MissingResolver NoContainerForMiddleware"
    by simp_all
next
  assume "isConstructor m \<and> typeof (get_property (get m) ''handle'') = ''function''"
  then show "transformMiddleware (Some get) m =
        Inr (JBound (get_property (get m) ''handle'') (get m))"
    by (simp add: transformMiddleware_def bind_handle_def)
next
  assume a: "typeof x \<noteq> ''object'' \<and> validly_annotated (Some get) w (get x)"
  then have "resolve_controller (Some get) x = Inr (get x)"
    by (simp add: resolve_controller_def)
  with a show "bind_controller (Some get) w i x = Inr (spec_mount (Some get) w (get x))"
    using bind_controller_Inr_iff [of "Some get" w i x "spec_mount (Some get) w (get x)"] by simp
next
  assume a: "list_all (\<lambda>x. validly_annotated (Some get) w (instance_of (Some get) x)) cs"
  then have "list_all (\<lambda>x. \<exists>inst. resolve_controller (Some get) x = Inr inst \<and>
      validly_annotated (Some get) w inst) cs"
    by (simp add: resolve_controller_Some list_all_iff)
  then have "fst (useControllers_from (Some get) 0 cs w) = Returned"
    by (rule useControllers_from_valid)
  then obtain w' where w': "useControllers_from (Some get) 0 cs w = (Returned, w')"
    by (cases "useControllers_from (Some get) 0 cs w") simp
  from useControllers_from_Returned [OF this] w'
  show "useControllers (Some get) cs w =
        (Returned,
         w\<lparr>app := app w @ map (\<lambda>x. spec_mount (Some get) w (instance_of (Some get) x)) cs\<rparr>)"
    by (simp add: useControllers_def)
qed

theorem class_reference_needs_resolver_witness:
  "useControllers None [userController, UserController] demo_world =
     (Threw NoContainerForController, snd (useControllers None [userController] demo_world)) \<and>
   transformMiddlewares None [mwA, AuthMiddleware] = Inl NoContainerForMiddleware \<and>
   transformMiddleware (Some demo_container) AuthMiddleware =
     Inr (JBound auth_handle authMiddleware) \<and>
   fst (useControllers (Some demo_container) [UserController] demo_world) = Returned"
proof -
  note here = class_reference_needs_resolver [where k = 1 and cs = "[userController, UserController]"
      and w = demo_world and m = AuthMiddleware and pre = "[mwA]" and post = "[]"
      and get = demo_container and x = UserController and i = 0 and inst = userController]
  have 1: "1 < length [userController, UserController] \<and>
      typeof ([userController, UserController] ! 1) \<noteq> ''object''"
    by (simp add: UserController_def)
  have 2: "isConstructor AuthMiddleware" by (simp add: AuthMiddleware_def)
  have 3: "typeof (get_property (demo_container AuthMiddleware) ''handle'') = ''function''"
    by (simp add: demo_defs)
  have p: "fst (useControllers None [userController] demo_world) = Returned"
    by (simp add: binder_defs demo_defs)
  have a: "useControllers None [userController, UserController] demo_world =
     (Threw NoContainerForController, snd (useControllers None [userController] demo_world))"
    using here 1 p by (simp split: prod.splits outcome.splits)
  have b: "transformMiddlewares None [mwA, AuthMiddleware] = Inl NoContainerForMiddleware"
    using here 2 by (simp add: transformMiddleware_def mwA_def)
  have c: "transformMiddleware (Some demo_container) AuthMiddleware =
     Inr (JBound auth_handle authMiddleware)"
    using here 2 3 by (simp add: demo_defs)
  have v: "validly_annotated (Some demo_container) demo_world userController"
    by (simp add: validly_annotated_def valid_method_def own_methods_def is_own_method_def
        has_RouteMetadata_def isControllerMetadata_def isHandlerMetadata_def
        ControllerMetadata_def HandlerMetadata_def middleware_shape_def isHandlerMethod_def
        resolvable_def demo_defs)
  have i: "instance_of (Some demo_container) UserController = userController"
    by (simp add: instance_of_def resolve_controller_def demo_defs)
  have d: "fst (useControllers (Some demo_container) [UserController] demo_world) = Returned"
    using class_reference_needs_resolver [where get = demo_container and cs = "[UserController]"
        and w = demo_world] v i
    by simp
  from a b c d show ?thesis by simp
qed

text \<open>
  C7. A plain handler function given as middleware should be used unchanged, and a
  middleware-capability object should give its \<^verbatim>\<open>handle\<close> bound to itself. For
  \<^verbatim>\<open>logger\<close>, a handler written with the keyword \<^verbatim>\<open>function\<close>, the code does
  otherwise: \<open>isConstructor\<close> holds of it, so without a container
  \<open>transformMiddlewares\<close> throws
  \<^verbatim>\<open>Add container to use middleware without instantiate.\<close> and binding
  \<^verbatim>\<open>ApiController\<close> fails; with a container the function is handed to the
  container as if it were a class. The arrow function and the capability object of
  the last line are treated as the claim says (lemmas
  \<open>transformMiddleware_function_unchanged\<close> and
  \<open>transformMiddleware_capability_bound\<close>).
\<close>

theorem function_handler_taken_for_class:
  "typeof logger = ''function'' \<and> isConstructor logger \<and>
   transformMiddlewares None [logger] = Inl NoContainerForMiddleware \<and>
   transformMiddlewares (Some demo_container) [logger] = Inl TypeError \<and>
   useControllers None [apiController] demo_world = (Threw NoContainerForMiddleware, demo_world) \<and>
   transformMiddlewares None [mwA, authMiddleware] = Inr [mwA, JBound auth_handle authMiddleware]"
  by (simp add: binder_defs demo_defs)

text \<open>
  C8. Running the binder twice over the same controller collection, with the same
  metadata and the same container, gives the same outcome and appends the same list
  of registrations on each run: the second run, started from the application the
  first one left, adds once more the layers the first one added (same verbs, paths
  and handler chains, in the same order).
\<close>

theorem rebinding_repeats_registrations:
  assumes "useControllers c cs w = (r1, w1)" and "useControllers c cs w1 = (r2, w2)"
  shows "r2 = r1 \<and>
    (\<exists>ls. app w1 = app w @ ls \<and> app w2 = app w1 @ ls \<and>
          binding_result (app w2) = binding_result (app w) @ binding_result ls @ binding_result ls)"
proof -
  let ?R = "useControllers_from c 0 cs (w\<lparr>app := []\<rparr>)"
  have 1: "r1 = fst ?R" "w1 = w\<lparr>app := app w @ app (snd ?R)\<rparr>"
    using assms(1) useControllers_from_normal [of c 0 cs w] by (simp_all add: useControllers_def)
  then have "w1\<lparr>app := []\<rparr> = w\<lparr>app := []\<rparr>" by simp
  then have 2: "r2 = fst ?R" "w2 = w1\<lparr>app := app w1 @ app (snd ?R)\<rparr>"
    using assms(2) useControllers_from_normal [of c 0 cs w1] by (simp_all add: useControllers_def)
  show ?thesis
    using 1 2 by (auto simp: binding_result_def)
qed

theorem rebinding_repeats_registrations_witness:
  "fst (useControllers None [userController] demo_world) = Returned \<and>
   fst (useControllers None [userController] (snd (useControllers None [userController] demo_world)))
     = Returned \<and>
   binding_result
     (app (snd (useControllers None [userController]
        (snd (useControllers None [userController] demo_world))))) =
     [(''get'', ''/users/list'', [mwA, mwB, mwC, JBound list_method userController]),
      (''post'', ''/users/create'', [mwA, mwB, JBound create_method userController]),
      (''get'', ''/users/list'', [mwA, mwB, mwC, JBound list_method userController]),
      (''post'', ''/users/create'', [mwA, mwB, JBound create_method userController])]"
proof -
  let ?l = "Mounted ''/users'' [mwA, mwB]
      [Route ''get'' ''/list'' [mwC, JBound list_method userController],
       Route ''post'' ''/create'' [JBound create_method userController]]"
  have 1: "useControllers None [userController] demo_world = (Returned, demo_world\<lparr>app := [?l]\<rparr>)"
    by (simp add: binder_defs demo_defs)
  obtain r2 w2 where 2: "useControllers None [userController] (demo_world\<lparr>app := [?l]\<rparr>) = (r2, w2)"
    by (cases "useControllers None [userController] (demo_world\<lparr>app := [?l]\<rparr>)")
  have 3: "app demo_world = []" by (simp add: demo_world_def)
  from rebinding_repeats_registrations [OF 1 2]
  have "r2 = Returned" "binding_result (app w2) = binding_result [?l] @ binding_result [?l]"
    by (auto simp: 3 binding_result_def)
  with 1 2 show ?thesis by (simp add: binding_result_def)
qed

text \<open>
  C9. For every controller collection, binding leaves the source classes, their
  instances and all attached metadata records unchanged: the world after
  \<open>useControllers\<close>, whether it returned or threw, answers every reflective read
  (metadata, prototype, own property names, property descriptors) as the world
  before did; the application keeps the layers it had, and nothing but the
  application differs.
\<close>

theorem binding_reads_only:
  "getMetadata (snd (useControllers c cs w)) = getMetadata w \<and>
   getPrototypeOf (snd (useControllers c cs w)) = getPrototypeOf w \<and>
   getOwnPropertyNames (snd (useControllers c cs w)) = getOwnPropertyNames w \<and>
   getOwnPropertyDescriptor (snd (useControllers c cs w)) = getOwnPropertyDescriptor w \<and>
   take (length (app w)) (app (snd (useControllers c cs w))) = app w \<and>
   snd (useControllers c cs w) = w\<lparr>app := app (snd (useControllers c cs w))\<rparr>"
proof -
  obtain r w' where R: "useControllers_from c 0 cs (w\<lparr>app := []\<rparr>) = (r, w')"
    by (cases "useControllers_from c 0 cs (w\<lparr>app := []\<rparr>)")
  have "useControllers c cs w = (r, w\<lparr>app := app w @ app w'\<rparr>)"
    unfolding useControllers_def using useControllers_from_normal [of c 0 cs w] R by simp
  then show ?thesis by simp
qed

theorem binding_reads_only_witness:
  "getMetadata (snd (useControllers None [userController, plainController] demo_world))
     = demo_getMetadata \<and>
   getOwnPropertyDescriptor (snd (useControllers None [userController, plainController] demo_world))
     = demo_getOwnPropertyDescriptor \<and>
   fst (useControllers None [userController, plainController] demo_world)
     = Threw (InvalidControllerMetadata 1)"
proof -
  have "fst (useControllers None [userController, plainController] demo_world)
     = Threw (InvalidControllerMetadata 1)"
    by (simp add: binder_defs demo_defs)
  moreover have "getMetadata demo_world = demo_getMetadata"
    "getOwnPropertyDescriptor demo_world = demo_getOwnPropertyDescriptor"
    by (simp_all add: demo_world_def)
  ultimately show ?thesis
    using binding_reads_only [of None "[userController, plainController]" demo_world]
    by simp
qed

text \<open>
  C10. Binding is not atomic on error. When the controllers before index \<open>k\<close> bind
  without error and the controller at \<open>k\<close> has no well-shaped controller record,
  \<open>useControllers\<close> throws, and the application it leaves holds the mount
  registrations, with their routes, of all \<open>k\<close> earlier controllers.
\<close>

theorem binding_not_atomic:
  assumes "k < length cs"
    and "useControllers c (take k cs) w = (Returned, w1)"
    and "resolve_controller c (cs ! k) = Inr inst" and "isObject inst"
    and "\<not> isControllerMetadata (getMetadata w ''malmajs:controller'' inst None)"
  shows "useControllers c cs w = (Threw (InvalidControllerMetadata k), w1) \<and>
     app w1 = app w @ map (\<lambda>x. spec_mount c w (instance_of c x)) (take k cs) \<and>
     length (app w1) = length (app w) + k"
proof -
  have b: "bind_controller c w (0 + k) (cs ! k) = Inl (InvalidControllerMetadata k)"
    using assms(3-5) by (simp add: bind_controller_invalid_metadata)
  have 1: "useControllers c cs w = (Threw (InvalidControllerMetadata k), w1)"
    using useControllers_from_stops [OF assms(1) b] assms(2) by (simp add: useControllers_def)
  have 2: "app w1 = app w @ map (\<lambda>x. spec_mount c w (instance_of c x)) (take k cs)"
    using useControllers_from_Returned [of c 0 "take k cs" w w1] assms(2)
    by (simp add: useControllers_def)
  from 1 2 assms(1) show ?thesis by simp
qed

theorem binding_not_atomic_witness:
  "useControllers None [userController, plainController] demo_world =
     (Threw (InvalidControllerMetadata 1),
      demo_world\<lparr>app := [Mounted ''/users'' [mwA, mwB]
        [Route ''get'' ''/list'' [mwC, JBound list_method userController],
         Route ''post'' ''/create'' [JBound create_method userController]]]\<rparr>)"
proof -
  let ?l = "Mounted ''/users'' [mwA, mwB]
      [Route ''get'' ''/list'' [mwC, JBound list_method userController],
       Route ''post'' ''/create'' [JBound create_method userController]]"
  have p: "useControllers None (take 1 [userController, plainController]) demo_world =
      (Returned, demo_world\<lparr>app := [?l]\<rparr>)"
    by (simp add: binder_defs demo_defs)
  have r: "resolve_controller None ([userController, plainController] ! 1) = Inr plainController"
    by (simp add: resolve_controller_def plainController_def)
  have o: "isObject plainController" by (simp add: plainController_def)
  have m: "\<not> isControllerMetadata (getMetadata demo_world ''malmajs:controller'' plainController None)"
    by (simp add: isControllerMetadata_def demo_defs)
  from binding_not_atomic [OF _ p r o m] show ?thesis by simp
qed

end
